theory Spec2Isabelle
  imports Main "HOL-Library.Sublist" "HOL-Library.Word"
begin

section \<open>The header file \<open>src/samples/custom/sm5/opaque_header.h\<close>\<close>

text \<open>
  The repository excerpt is one C-style header used as a preprocessor test fixture.
  It is embedded twice: as the byte string of the file, from which a small lexer and a
  declaration parser compute everything that is said about its structure, and as the
  HOL types and constant that its two declarations denote.
\<close>

subsection \<open>The bytes of the file\<close>

definition NL :: char where
  "NL = CHR 0x0A"

text \<open>
  The file is 236 bytes long: eight lines of text separated by seven line feeds. The
  eighth line has no line terminator.
\<close>

definition opaque_header_h :: string where
  "opaque_header_h =
     ''// Non-HLSL helper header that should be ignored by the preprocessor.'' @ [NL] @
     ''// Contains C-style declarations that are not valid HLSL.'' @ [NL] @
     ''typedef struct _OpaqueItem {'' @ [NL] @
     ''    int count;'' @ [NL] @
     ''    int flags;'' @ [NL] @
     ''} OpaqueItem;'' @ [NL] @
     [NL] @
     ''static const int gOpaqueValue = 7;''"

text \<open>
  The block that section 6 of the specification reproduces as "the literal byte content
  of the file", following the specification's words: six lines, the fifth one empty. Its
  last line is taken without a line terminator, the reading under which the block is
  closest to the file.
\<close>

definition spec_block :: string where
  "spec_block =
     ''typedef struct _OpaqueItem {'' @ [NL] @
     ''    int count;'' @ [NL] @
     ''    int flags;'' @ [NL] @
     ''} OpaqueItem;'' @ [NL] @
     [NL] @
     ''static const int gOpaqueValue = 7;''"

text \<open>
  Splitting a text into its lines at line feeds; a last line without a terminator counts
  as a line, a terminator at the very end does not open another one.
\<close>

fun lines_acc :: "string \<Rightarrow> string \<Rightarrow> string list" where
  "lines_acc cur [] = (if cur = [] then [] else [cur])"
| "lines_acc cur (c # cs) =
     (if c = NL then cur # lines_acc [] cs else lines_acc (cur @ [c]) cs)"

definition lines_of :: "string \<Rightarrow> string list" where
  "lines_of s = lines_acc [] s"

definition is_blank :: "char \<Rightarrow> bool" where
  "is_blank c = (c = CHR '' '' \<or> c = CHR 0x09 \<or> c = CHR 0x0D \<or> c = NL)"

text \<open>
  A preprocessor directive is a line whose first character after optional blanks is
  \<open>#\<close>.
\<close>

definition is_directive_line :: "string \<Rightarrow> bool" where
  "is_directive_line l = (take 1 (dropWhile is_blank l) = ''#'')"

subsection \<open>Tokens\<close>

datatype token = Ident string | Num nat | Punct char

datatype lex_mode = Code | InIdent string | InNum nat | Slash | LineComment

definition is_digit :: "char \<Rightarrow> bool" where
  "is_digit c = (c \<in> set ''0123456789'')"

definition is_ident_start :: "char \<Rightarrow> bool" where
  "is_ident_start c =
     (c \<in> set ''abcdefghijklmnopqrstuvwxyzABCDEFGHIJKLMNOPQRSTUVWXYZ_'')"

definition digit_val :: "char \<Rightarrow> nat" where
  "digit_val c = of_char c - 48"

text \<open>
  The lexer reads one character at a time. \<open>//\<close> opens a comment that runs to the end
  of the line and leaves no token.
\<close>

definition step_code :: "char \<Rightarrow> token list \<times> lex_mode" where
  "step_code c =
     (if is_blank c then ([], Code)
      else if is_ident_start c then ([], InIdent [c])
      else if is_digit c then ([], InNum (digit_val c))
      else if c = CHR ''/'' then ([], Slash)
      else ([Punct c], Code))"

fun emit :: "token \<Rightarrow> token list \<times> lex_mode \<Rightarrow> token list \<times> lex_mode" where
  "emit t (ts, m) = (t # ts, m)"

fun step :: "lex_mode \<Rightarrow> char \<Rightarrow> token list \<times> lex_mode" where
  "step Code c = step_code c"
| "step (InIdent s) c =
     (if is_ident_start c \<or> is_digit c then ([], InIdent (s @ [c]))
      else emit (Ident s) (step_code c))"
| "step (InNum n) c =
     (if is_digit c then ([], InNum (10 * n + digit_val c))
      else emit (Num n) (step_code c))"
| "step Slash c =
     (if c = CHR ''/'' then ([], LineComment)
      else emit (Punct (CHR ''/'')) (step_code c))"
| "step LineComment c = (if c = NL then ([], Code) else ([], LineComment))"

fun flush :: "lex_mode \<Rightarrow> token list" where
  "flush Code = []"
| "flush (InIdent s) = [Ident s]"
| "flush (InNum n) = [Num n]"
| "flush Slash = [Punct (CHR ''/'')]"
| "flush LineComment = []"

fun lex :: "lex_mode \<Rightarrow> string \<Rightarrow> token list" where
  "lex m [] = flush m"
| "lex m (c # cs) = (case step m c of (ts, m') \<Rightarrow> ts @ lex m' cs)"

definition tokens_of :: "string \<Rightarrow> token list" where
  "tokens_of s = lex Code s"

subsection \<open>Declarations\<close>

text \<open>
  The types a declaration can name: \<open>int\<close>, a struct by its tag, or a typedef name.
\<close>

datatype c_type = TInt | TStruct string | TNamed string

datatype decl =
    TypedefStruct string "(c_type \<times> string) list" string
  | VarDecl bool bool c_type string "nat option"

definition c_keywords :: "string list" where
  "c_keywords =
     [''typedef'', ''struct'', ''union'', ''enum'', ''static'', ''extern'', ''const'',
      ''volatile'', ''void'', ''char'', ''short'', ''int'', ''long'', ''float'',
      ''double'', ''signed'', ''unsigned'', ''sizeof'', ''if'', ''else'', ''switch'',
      ''case'', ''default'', ''while'', ''do'', ''for'', ''goto'', ''break'',
      ''continue'', ''return'']"

definition control_keywords :: "string list" where
  "control_keywords =
     [''if'', ''else'', ''switch'', ''case'', ''default'', ''while'', ''do'', ''for'',
      ''goto'', ''break'', ''continue'', ''return'']"

definition is_name :: "string \<Rightarrow> bool" where
  "is_name s = (s \<notin> set c_keywords)"

text \<open>
  The top level of a translation unit: a declaration ends at a \<open>;\<close> outside braces.
  Tokens left over after the last such \<open>;\<close> are an unfinished declaration, and the
  result is \<open>None\<close>.
\<close>

fun split_decls :: "nat \<Rightarrow> token list \<Rightarrow> token list \<Rightarrow> token list list option" where
  "split_decls d acc [] = (if acc = [] then Some [] else None)"
| "split_decls d acc (t # ts) =
     (if t = Punct (CHR ''{'') then split_decls (Suc d) (acc @ [t]) ts
      else if t = Punct (CHR ''}'') then split_decls (d - 1) (acc @ [t]) ts
      else if t = Punct (CHR '';'') \<and> d = 0 then
        map_option ((#) acc) (split_decls 0 [] ts)
      else split_decls d (acc @ [t]) ts)"

text \<open>A type specifier at the head of a token list, and the tokens after it.\<close>

fun parse_type :: "token list \<Rightarrow> (c_type \<times> token list) option" where
  "parse_type (Ident s # ts) =
     (if s = ''int'' then Some (TInt, ts)
      else if s = ''struct'' then
        (case ts of
           Ident t # ts' \<Rightarrow> if is_name t then Some (TStruct t, ts') else None
         | _ \<Rightarrow> None)
      else if is_name s then Some (TNamed s, ts)
      else None)"
| "parse_type _ = None"

text \<open>A member of a struct: a type and a name, nothing else.\<close>

definition parse_field :: "token list \<Rightarrow> (c_type \<times> string) option" where
  "parse_field ts =
     (case parse_type ts of
        Some (ty, [Ident n]) \<Rightarrow> if is_name n then Some (ty, n) else None
      | _ \<Rightarrow> None)"

text \<open>The members between the braces, each closed by its \<open>;\<close>.\<close>

fun parse_fields :: "token list \<Rightarrow> token list \<Rightarrow> (c_type \<times> string) list option" where
  "parse_fields acc [] = (if acc = [] then Some [] else None)"
| "parse_fields acc (t # ts) =
     (if t = Punct (CHR '';'') then
        (case parse_field acc of
           None \<Rightarrow> None
         | Some f \<Rightarrow> map_option ((#) f) (parse_fields [] ts))
      else parse_fields (acc @ [t]) ts)"

definition is_close :: "token \<Rightarrow> bool" where
  "is_close t = (t = Punct (CHR ''}''))"

text \<open>\<open>typedef struct TAG { members } NAME\<close>, the tokens after \<open>typedef struct\<close>.\<close>

definition parse_typedef_struct :: "token list \<Rightarrow> decl option" where
  "parse_typedef_struct ts =
     (case ts of
        Ident tag # brace # rest \<Rightarrow>
          if brace = Punct (CHR ''{'') \<and> is_name tag then
            (case (parse_fields [] (takeWhile (\<lambda>t. \<not> is_close t) rest),
                   dropWhile (\<lambda>t. \<not> is_close t) rest) of
               (Some fs, [_, Ident n]) \<Rightarrow>
                 if is_name n then Some (TypedefStruct tag fs n) else None
             | _ \<Rightarrow> None)
          else None
      | _ \<Rightarrow> None)"

text \<open>
  A variable: a type, a name, and optionally \<open>=\<close> and an integer literal, after the
  storage class \<open>static\<close> and the qualifier \<open>const\<close> have been read off.
\<close>

definition parse_var_body :: "bool \<Rightarrow> bool \<Rightarrow> token list \<Rightarrow> decl option" where
  "parse_var_body st cn ts =
     (case parse_type ts of
        Some (ty, [Ident n]) \<Rightarrow>
          if is_name n then Some (VarDecl st cn ty n None) else None
      | Some (ty, [Ident n, eq, Num v]) \<Rightarrow>
          if is_name n \<and> eq = Punct (CHR ''='') then Some (VarDecl st cn ty n (Some v))
          else None
      | _ \<Rightarrow> None)"

fun parse_var :: "bool \<Rightarrow> bool \<Rightarrow> token list \<Rightarrow> decl option" where
  "parse_var st cn (Ident s # ts) =
     (if s = ''static'' then parse_var True cn ts
      else if s = ''const'' then parse_var st True ts
      else parse_var_body st cn (Ident s # ts))"
| "parse_var st cn _ = None"

fun parse_decl :: "token list \<Rightarrow> decl option" where
  "parse_decl (Ident a # Ident b # ts) =
     (if a = ''typedef'' then
        (if b = ''struct'' then parse_typedef_struct ts else None)
      else parse_var False False (Ident a # Ident b # ts))"
| "parse_decl _ = None"

fun parse_all :: "token list list \<Rightarrow> decl list option" where
  "parse_all [] = Some []"
| "parse_all (g # gs) =
     (case parse_decl g of
        None \<Rightarrow> None
      | Some d \<Rightarrow> map_option ((#) d) (parse_all gs))"

text \<open>
  The declarations of a header; \<open>None\<close> when some part outside the comments is not a
  declaration of the two forms above.
\<close>

definition parse_header :: "string \<Rightarrow> decl list option" where
  "parse_header s =
     (case split_decls 0 [] (tokens_of s) of
        None \<Rightarrow> None
      | Some gs \<Rightarrow> parse_all gs)"

subsection \<open>Reading the declarations\<close>

datatype decl_kind = StructTypeDecl | ConstantDecl | VariableDecl

fun kind_of :: "decl \<Rightarrow> decl_kind" where
  "kind_of (TypedefStruct tag fs n) = StructTypeDecl"
| "kind_of (VarDecl st cn ty n v) = (if cn then ConstantDecl else VariableDecl)"

text \<open>The names a declaration introduces; a struct tag is written \<open>struct TAG\<close>.\<close>

fun declared_names :: "decl \<Rightarrow> string list" where
  "declared_names (TypedefStruct tag fs n) = [''struct '' @ tag, n]"
| "declared_names (VarDecl st cn ty n v) = [n]"

text \<open>The types a declaration gives to the members and variables it declares.\<close>

fun used_types :: "decl \<Rightarrow> c_type list" where
  "used_types (TypedefStruct tag fs n) = map fst fs"
| "used_types (VarDecl st cn ty n v) = [ty]"

fun is_integer_type :: "c_type \<Rightarrow> bool" where
  "is_integer_type TInt = True"
| "is_integer_type (TStruct t) = False"
| "is_integer_type (TNamed n) = False"

text \<open>The struct types of a header: tag, typedef name and members.\<close>

fun struct_of :: "decl \<Rightarrow> (string \<times> string \<times> (c_type \<times> string) list) list" where
  "struct_of (TypedefStruct tag fs n) = [(tag, n, fs)]"
| "struct_of (VarDecl st cn ty n v) = []"

text \<open>
  The variables of a header: name, whether it is \<open>const\<close>, type and initial value.
\<close>

fun variable_of :: "decl \<Rightarrow> (string \<times> bool \<times> c_type \<times> nat option) list" where
  "variable_of (TypedefStruct tag fs n) = []"
| "variable_of (VarDecl st cn ty n v) = [(n, cn, ty, v)]"

definition structs_in ::
  "string \<Rightarrow> (string \<times> string \<times> (c_type \<times> string) list) list option" where
  "structs_in s = map_option (\<lambda>ds. concat (map struct_of ds)) (parse_header s)"

definition variables_in ::
  "string \<Rightarrow> (string \<times> bool \<times> c_type \<times> nat option) list option" where
  "variables_in s = map_option (\<lambda>ds. concat (map variable_of ds)) (parse_header s)"

definition names_in :: "string \<Rightarrow> string list option" where
  "names_in s = map_option (\<lambda>ds. concat (map declared_names ds)) (parse_header s)"

definition types_in :: "string \<Rightarrow> c_type list option" where
  "types_in s = map_option (\<lambda>ds. concat (map used_types ds)) (parse_header s)"

definition kinds_in :: "string \<Rightarrow> decl_kind list option" where
  "kinds_in s = map_option (map kind_of) (parse_header s)"

text \<open>Tokens that only statements and function bodies contain.\<close>

fun is_control :: "token \<Rightarrow> bool" where
  "is_control (Ident s) = (s \<in> set control_keywords)"
| "is_control (Num n) = False"
| "is_control (Punct c) = False"

subsection \<open>What the declarations denote\<close>

text \<open>
  \<open>int\<close> is a 32-bit two's complement integer, as the specification has it (and as it
  is in HLSL and on the usual C targets); the header itself does not fix the width.
\<close>

type_synonym c_int = "32 word"

record OpaqueItem =
  count :: c_int
  flags :: c_int

definition gOpaqueValue :: c_int where
  "gOpaqueValue = 7"

section \<open>The file, read\<close>

lemma header_lines:
  "lines_of opaque_header_h =
     [''// Non-HLSL helper header that should be ignored by the preprocessor.'',
      ''// Contains C-style declarations that are not valid HLSL.'',
      ''typedef struct _OpaqueItem {'',
      ''    int count;'',
      ''    int flags;'',
      ''} OpaqueItem;'',
      [],
      ''static const int gOpaqueValue = 7;'']"
  by (simp add: opaque_header_h_def lines_of_def NL_def)

lemma header_tokens:
  "tokens_of opaque_header_h =
     [Ident ''typedef'', Ident ''struct'', Ident ''_OpaqueItem'', Punct (CHR ''{''),
      Ident ''int'', Ident ''count'', Punct (CHR '';''),
      Ident ''int'', Ident ''flags'', Punct (CHR '';''),
      Punct (CHR ''}''), Ident ''OpaqueItem'', Punct (CHR '';''),
      Ident ''static'', Ident ''const'', Ident ''int'', Ident ''gOpaqueValue'',
      Punct (CHR ''=''), Num 7, Punct (CHR '';'')]"
  by code_simp

lemma header_decls:
  "parse_header opaque_header_h =
     Some [TypedefStruct ''_OpaqueItem'' [(TInt, ''count''), (TInt, ''flags'')]
             ''OpaqueItem'',
           VarDecl True True TInt ''gOpaqueValue'' (Some 7)]"
  by code_simp

lemma header_split:
  "opaque_header_h =
     (''// Non-HLSL helper header that should be ignored by the preprocessor.'' @ [NL] @
      ''// Contains C-style declarations that are not valid HLSL.'' @ [NL]) @
     spec_block"
  by (simp add: opaque_header_h_def spec_block_def)

section \<open>The claims\<close>

text \<open>
  C1, as the specification states it: the byte content of the file is exactly the
  six-line block of section 6, with nothing before or after it. This fails: the file
  and the block are different byte strings.
\<close>

theorem file_differs_from_spec_block: "opaque_header_h \<noteq> spec_block"
  by (simp add: opaque_header_h_def spec_block_def)

text \<open>
  C1, amended: the byte content of the file is its two \<open>//\<close> comment lines, each
  ended by a line feed, followed by the six-line block of section 6 (its last line
  without a terminator), with nothing in between and nothing after the block.
\<close>

theorem file_is_comments_then_spec_block:
  "opaque_header_h =
     ''// Non-HLSL helper header that should be ignored by the preprocessor.'' @ [NL] @
     ''// Contains C-style declarations that are not valid HLSL.'' @ [NL] @
     spec_block"
  by (simp add: opaque_header_h_def spec_block_def)

text \<open>
  C2: the file is eight lines long and holds exactly two declarations, the first a
  struct type declaration and the second a constant declaration.
\<close>

theorem eight_lines_two_declarations:
  "length (lines_of opaque_header_h) = 8 \<and>
   kinds_in opaque_header_h = Some [StructTypeDecl, ConstantDecl]"
  by (simp add: header_lines kinds_in_def header_decls)

text \<open>
  C3: the one struct type of the file has the tag \<open>_OpaqueItem\<close> and the typedef name
  \<open>OpaqueItem\<close>; it has exactly two members, and the type of each is an integer type.
\<close>

theorem struct_has_two_integer_fields:
  "\<exists>fs. structs_in opaque_header_h = Some [(''_OpaqueItem'', ''OpaqueItem'', fs)] \<and>
        length fs = 2 \<and> list_all is_integer_type (map fst fs)"
  by (simp add: structs_in_def header_decls)

text \<open>
  C4: the file declares exactly one variable, \<open>gOpaqueValue\<close>; it is
  \<open>const\<close>-qualified and its type is an integer type.
\<close>

theorem one_const_integer_constant:
  "\<exists>ty v. variables_in opaque_header_h = Some [(''gOpaqueValue'', True, ty, v)] \<and>
          is_integer_type ty"
  by (simp add: variables_in_def header_decls)

text \<open>
  C5: the identifiers \<open>OpaqueItem\<close> and \<open>_OpaqueItem\<close> each occur once among the
  tokens of the file, in the declaration that introduces them, and every member and
  variable of the file has the type \<open>int\<close>: nothing in the file is of the struct type.
\<close>

theorem struct_type_never_used:
  "count_list (tokens_of opaque_header_h) (Ident ''OpaqueItem'') = 1 \<and>
   count_list (tokens_of opaque_header_h) (Ident ''_OpaqueItem'') = 1 \<and>
   names_in opaque_header_h =
     Some [''struct _OpaqueItem'', ''OpaqueItem'', ''gOpaqueValue''] \<and>
   types_in opaque_header_h = Some [TInt, TInt, TInt]"
  by (simp add: header_tokens names_in_def types_in_def header_decls)

text \<open>
  C6: the members \<open>count\<close> and \<open>flags\<close> are declared with the type \<open>int\<close> and nothing
  else (no bit-field width, no initialiser); as 32-bit integers they are unconstrained:
  for every pair of 32-bit values there is a record holding them.
\<close>

theorem fields_are_arbitrary_32_bit_integers:
  "(\<exists>tag n. structs_in opaque_header_h =
       Some [(tag, n, [(TInt, ''count''), (TInt, ''flags'')])]) \<and>
   (\<forall>c f :: c_int. \<exists>x :: OpaqueItem. count x = c \<and> flags x = f) \<and>
   (\<forall>x :: OpaqueItem. size (count x) = 32 \<and> size (flags x) = 32)"
proof (intro conjI allI)
  show "\<exists>tag n. structs_in opaque_header_h =
       Some [(tag, n, [(TInt, ''count''), (TInt, ''flags'')])]"
    by (simp add: structs_in_def header_decls)
next
  fix c f :: c_int
  have "count \<lparr>count = c, flags = f\<rparr> = c \<and> flags \<lparr>count = c, flags = f\<rparr> = f"
    by simp
  then show "\<exists>x :: OpaqueItem. count x = c \<and> flags x = f"
    by blast
next
  fix x :: OpaqueItem
  show "size (count x) = 32" by (simp add: word_size)
  show "size (flags x) = 32" by (simp add: word_size)
qed

text \<open>
  C7: \<open>OpaqueItem\<close> and \<open>gOpaqueValue\<close> are each declared exactly once; the file
  consists of declarations only and names \<open>gOpaqueValue\<close> nowhere but in its
  declaration, where the only \<open>=\<close> of the file stands, so nothing assigns to it; it
  is \<open>const\<close> with the initial value 7, which is its value throughout.
\<close>

theorem declared_once_never_mutated:
  "map_option (\<lambda>ns. (count_list ns ''OpaqueItem'', count_list ns ''gOpaqueValue''))
     (names_in opaque_header_h) = Some (1, 1) \<and>
   count_list (tokens_of opaque_header_h) (Ident ''gOpaqueValue'') = 1 \<and>
   count_list (tokens_of opaque_header_h) (Punct (CHR ''='')) = 1 \<and>
   variables_in opaque_header_h = Some [(''gOpaqueValue'', True, TInt, Some 7)] \<and>
   unat gOpaqueValue = 7"
  by (simp add: header_tokens names_in_def variables_in_def header_decls
      gOpaqueValue_def)

text \<open>
  C8: outside its comments the file is a sequence of declarations; it has no control
  keyword and no parenthesis (hence no function, call or statement), and no variable
  that is not \<open>const\<close>.
\<close>

theorem no_behaviour:
  "parse_header opaque_header_h \<noteq> None \<and>
   filter is_control (tokens_of opaque_header_h) = [] \<and>
   count_list (tokens_of opaque_header_h) (Punct (CHR ''('')) = 0 \<and>
   map_option (filter (\<lambda>k. k = VariableDecl)) (kinds_in opaque_header_h) = Some []"
  by (simp add: header_tokens kinds_in_def header_decls control_keywords_def)

text \<open>
  C9: the first two lines of the file are the two \<open>//\<close> comment lines, which leave no
  token, and the block of section 6 is a proper suffix of the file: the file extends
  the block and is not equal to it.
\<close>

theorem comment_lines_precede_spec_block:
  "take 2 (lines_of opaque_header_h) =
     [''// Non-HLSL helper header that should be ignored by the preprocessor.'',
      ''// Contains C-style declarations that are not valid HLSL.''] \<and>
   tokens_of (concat (map (\<lambda>l. l @ [NL]) (take 2 (lines_of opaque_header_h)))) = [] \<and>
   strict_suffix spec_block opaque_header_h"
proof (intro conjI)
  show "take 2 (lines_of opaque_header_h) =
     [''// Non-HLSL helper header that should be ignored by the preprocessor.'',
      ''// Contains C-style declarations that are not valid HLSL.'']"
    by (simp add: header_lines)
next
  have "concat (map (\<lambda>l. l @ [NL]) (take 2 (lines_of opaque_header_h))) =
     ''// Non-HLSL helper header that should be ignored by the preprocessor.'' @ [NL] @
     ''// Contains C-style declarations that are not valid HLSL.'' @ [NL]"
    by (simp add: header_lines)
  moreover have "tokens_of
    (''// Non-HLSL helper header that should be ignored by the preprocessor.'' @ [NL] @
     ''// Contains C-style declarations that are not valid HLSL.'' @ [NL]) = []"
    by code_simp
  ultimately show
    "tokens_of (concat (map (\<lambda>l. l @ [NL]) (take 2 (lines_of opaque_header_h)))) = []"
    by simp
next
  have "suffix spec_block opaque_header_h"
    unfolding suffix_def using header_split by blast
  moreover have "spec_block \<noteq> opaque_header_h"
    by (simp add: opaque_header_h_def spec_block_def)
  ultimately show "strict_suffix spec_block opaque_header_h"
    by (simp add: strict_suffix_def)
qed

text \<open>
  C10: no line of the file begins with \<open>#\<close>, also after leading blanks, so no line is
  a preprocessor directive; the character \<open>#\<close> does not occur in the file at all.
\<close>

theorem no_preprocessor_directives:
  "filter (\<lambda>l. take 1 l = ''#'') (lines_of opaque_header_h) = [] \<and>
   filter is_directive_line (lines_of opaque_header_h) = [] \<and>
   count_list opaque_header_h (CHR ''#'') = 0"
proof (intro conjI)
  show "filter (\<lambda>l. take 1 l = ''#'') (lines_of opaque_header_h) = []"
    by (simp add: header_lines)
  show "filter is_directive_line (lines_of opaque_header_h) = []"
    by (simp add: header_lines is_directive_line_def is_blank_def NL_def)
  show "count_list opaque_header_h (CHR ''#'') = 0"
    by (simp add: opaque_header_h_def NL_def)
qed

end
